theory Spec2Isabelle
  imports Complex_Main
begin

section \<open>Values of the Python program\<close>

text \<open>
  The strategy computes with Python floats and with elements of a numpy float64 array. A
  finite float is the real number it denotes, and a zero is the positive zero. The three
  special values of a numpy float64 are kept, because the source tests for one of them
  (\<open>math.isnan\<close>) and because \<open>1 / numpy.float64(0.0)\<close> is \<open>inf\<close> with a warning, not an
  exception.

  The quotients, the products and the sum \<open>1 + margin\<close> that the strategy computes from a
  probability are rounded as binary64 rounds them, to the nearest float with ties to the
  even significand, since a bet is decided by comparing their result with a price. The
  sums of profits at the close of a market and the sum of the draws of a probability vector
  are kept exact. Prices, sizes and the configured numbers are finite floats, hence \<open>real\<close>.
\<close>

datatype npfloat = Fin real | PInf | NInf | NaN

text \<open>The number of binary digits of a natural number.\<close>

fun bit_length :: "nat \<Rightarrow> nat" where
  "bit_length n = (if n = 0 then 0 else Suc (bit_length (n div 2)))"

declare bit_length.simps [simp del]

text \<open>The binary exponent of a real \<open>x \<noteq> 0\<close>: the integer \<open>e\<close> with \<open>2^e \<le> |x| < 2^(e+1)\<close>.\<close>

definition exponent :: "real \<Rightarrow> int" where
  "exponent x =
     (if 1 \<le> \<bar>x\<bar> then int (bit_length (nat \<lfloor>\<bar>x\<bar>\<rfloor>)) - 1
      else - int (bit_length (nat (\<lceil>1 / \<bar>x\<bar>\<rceil> - 1))))"

definition pow2 :: "int \<Rightarrow> real" where
  "pow2 k = (if 0 \<le> k then 2 ^ nat k else 1 / 2 ^ nat (- k))"

text \<open>The nearest integer, a tie going to the even one.\<close>

definition round_half_even :: "real \<Rightarrow> int" where
  "round_half_even y =
     (let f = \<lfloor>y\<rfloor>; d = y - of_int f
      in if d < 1 / 2 then f else if 1 / 2 < d then f + 1 else if even f then f else f + 1)"

text \<open>
  The binary64 value of an exact result \<open>x\<close>: a significand of 53 bits, the least exponent
  -1022 of the normal numbers kept below it (the subnormal numbers), and an infinity when
  the rounded value reaches \<open>2^1024\<close>.
\<close>

definition round64 :: "real \<Rightarrow> npfloat" where
  "round64 x =
     (if x = 0 then Fin 0
      else
        let e = max (exponent x) (- 1022);
            q = pow2 (e - 52);
            y = of_int (round_half_even (x / q)) * q
        in if pow2 1024 \<le> y then PInf else if y \<le> - pow2 1024 then NInf else Fin y)"

text \<open>\<open>1 / x\<close> for a numpy float64 \<open>x\<close>.\<close>

fun np_recip :: "npfloat \<Rightarrow> npfloat" where
  "np_recip (Fin x) = (if x = 0 then PInf else round64 (1 / x))"
| "np_recip PInf = Fin 0"
| "np_recip NInf = Fin 0"
| "np_recip NaN = NaN"

text \<open>\<open>x * y\<close> for a numpy float64 \<open>x\<close> and a float \<open>y\<close>.\<close>

fun np_mul :: "npfloat \<Rightarrow> npfloat \<Rightarrow> npfloat" where
  "np_mul NaN y = NaN"
| "np_mul x NaN = NaN"
| "np_mul (Fin x) (Fin y) = round64 (x * y)"
| "np_mul (Fin x) PInf = (if 0 < x then PInf else if x < 0 then NInf else NaN)"
| "np_mul (Fin x) NInf = (if 0 < x then NInf else if x < 0 then PInf else NaN)"
| "np_mul PInf (Fin y) = (if 0 < y then PInf else if y < 0 then NInf else NaN)"
| "np_mul NInf (Fin y) = (if 0 < y then NInf else if y < 0 then PInf else NaN)"
| "np_mul PInf PInf = PInf"
| "np_mul PInf NInf = NInf"
| "np_mul NInf PInf = NInf"
| "np_mul NInf NInf = PInf"

text \<open>\<open>x / y\<close> for a numpy float64 \<open>x\<close> and a float \<open>y\<close>.\<close>

fun np_div :: "npfloat \<Rightarrow> npfloat \<Rightarrow> npfloat" where
  "np_div NaN y = NaN"
| "np_div x NaN = NaN"
| "np_div (Fin x) (Fin y) =
     (if y = 0 then (if 0 < x then PInf else if x < 0 then NInf else NaN)
      else round64 (x / y))"
| "np_div (Fin x) PInf = Fin 0"
| "np_div (Fin x) NInf = Fin 0"
| "np_div PInf (Fin y) = (if 0 \<le> y then PInf else NInf)"
| "np_div NInf (Fin y) = (if 0 \<le> y then NInf else PInf)"
| "np_div PInf PInf = NaN"
| "np_div PInf NInf = NaN"
| "np_div NInf PInf = NaN"
| "np_div NInf NInf = NaN"

text \<open>\<open>x < c\<close> and \<open>x > c\<close>: every comparison with \<open>nan\<close> is false.\<close>

fun np_less :: "npfloat \<Rightarrow> real \<Rightarrow> bool" where
  "np_less (Fin x) c = (x < c)"
| "np_less PInf c = False"
| "np_less NInf c = True"
| "np_less NaN c = False"

fun np_greater :: "npfloat \<Rightarrow> real \<Rightarrow> bool" where
  "np_greater (Fin x) c = (c < x)"
| "np_greater PInf c = True"
| "np_greater NInf c = False"
| "np_greater NaN c = False"


fun isnan :: "npfloat \<Rightarrow> bool" where
  "isnan NaN = True"
| "isnan _ = False"

text \<open>The exceptions the modelled code can raise.\<close>

datatype error = TypeError | NameError | IndexError | KeyError | ValueError | OSError

section \<open>The strategy object\<close>

text \<open>
  The fields \<open>add\<close> sets from the configuration, the two required configuration keys
  \<open>staking_strategy\<close> and \<open>stake\<close> (read as \<open>self.context[...]\<close>, taken as present), and
  the cache of generated probabilities, keyed by market id.
\<close>

record strategy =
  staking_strategy :: string
  stake :: real
  seconds_to_start :: int
  margin :: real
  min_back_price :: real
  max_back_price :: real
  min_lay_price :: real
  max_lay_price :: real
  market_probabilities :: "string \<rightharpoonup> npfloat list"

section \<open>Candidate prices\<close>

text \<open>
  \<open>_get_back_price\<close> and \<open>_get_lay_price\<close>. A price that is \<open>None\<close> is \<open>None\<close> here; with a
  staking strategy other than \<open>take\<close> and \<open>offer\<close> the local \<open>price\<close> stays \<open>None\<close> and the
  comparison of a float with it raises \<open>TypeError\<close>.
\<close>

definition get_back_price :: "strategy \<Rightarrow> npfloat \<Rightarrow> real option \<Rightarrow> real option \<Rightarrow> error + real option" where
  "get_back_price s runner_probability lay_price back_price =
     (if lay_price = None \<or> back_price = None then Inr None
      else
        let price = (if staking_strategy s = ''take'' then back_price
                     else if staking_strategy s = ''offer'' then lay_price
                     else None);
            runner_price_ev = np_mul (np_recip runner_probability) (round64 (1 + margin s))
        in case price of
             None \<Rightarrow> Inl TypeError
           | Some pr \<Rightarrow>
               if np_less runner_price_ev pr then Inr None
               else if min_back_price s > pr then Inr None
               else if max_back_price s < pr then Inr None
               else Inr (Some pr))"

definition get_lay_price :: "strategy \<Rightarrow> npfloat \<Rightarrow> real option \<Rightarrow> real option \<Rightarrow> error + real option" where
  "get_lay_price s runner_probability lay_price back_price =
     (if lay_price = None \<or> back_price = None then Inr None
      else
        let price = (if staking_strategy s = ''take'' then lay_price
                     else if staking_strategy s = ''offer'' then back_price
                     else None);
            runner_price_ev = np_div (np_recip runner_probability) (round64 (1 + margin s))
        in case price of
             None \<Rightarrow> Inl TypeError
           | Some pr \<Rightarrow>
               if np_greater runner_price_ev pr then Inr None
               else if min_lay_price s > pr then Inr None
               else if max_lay_price s < pr then Inr None
               else Inr (Some pr))"

section \<open>Market snapshots, orders and commands\<close>

text \<open>
  A runner of a market book: \<open>best_back_price\<close> and \<open>best_lay_price\<close> are what the library
  call \<open>get_price(runner.ex.available_to_back, 0)\<close> (and \<open>available_to_lay\<close>) returns, a price
  or \<open>None\<close>.
\<close>

record runner =
  selection_id :: int
  handicap :: real
  status :: string
  best_back_price :: "real option"
  best_lay_price :: "real option"

text \<open>
  An order type of the library: \<open>LimitOrder(price, size)\<close> and
  \<open>LimitOnCloseOrder(liability, price)\<close>; \<open>order_type.price\<close> reads the price of either.
\<close>

datatype order_type = LimitOrder real real | LimitOnCloseOrder real real

fun order_type_price :: "order_type \<Rightarrow> real" where
  "order_type_price (LimitOrder p sz) = p"
| "order_type_price (LimitOnCloseOrder liability p) = p"

text \<open>
  The status of an order is a value of the library's enumeration; the strategy only
  compares it with \<open>OrderStatus.EXECUTABLE\<close>.
\<close>

datatype order_status = EXECUTABLE | NOT_EXECUTABLE string

record order =
  side :: string
  order_status :: order_status
  order_type :: order_type
  size_matched :: real

record trade =
  trade_market_id :: string
  trade_selection_id :: int
  trade_handicap :: real

text \<open>
  The market object: its id, and what the two library queries answer while one update
  is processed, \<open>market.blotter.strategy_selection_orders(self, selection_id, handicap)\<close>
  and \<open>self.get_runner_context(market_id, selection_id, handicap).trade_count\<close>. The
  strategy asks each of them once for a runner, before it issues a command for that
  runner; the runners of a market book have distinct selections.
\<close>

record market =
  market_id :: string
  strategy_selection_orders :: "int \<Rightarrow> real \<Rightarrow> order list"
  trade_count :: "int \<Rightarrow> real \<Rightarrow> nat"

text \<open>
  \<open>market_book.market_definition.market_base_rate\<close> is decoded from the exchange's data:
  \<open>None\<close> when the definition has no base rate, a number, or a string.
\<close>

datatype base_rate = RateNone | RateNum real | RateStr string

record market_book =
  book_market_id :: string
  number_of_active_runners :: nat
  runners :: "runner list"
  market_base_rate :: base_rate

text \<open>
  The commands sent to the market, in the order the code issues them:
  \<open>market.place_order(trade.create_order(side, order_type))\<close> and
  \<open>market.replace_order(order, new_price)\<close>.
\<close>

datatype command = PlaceOrder trade string order_type | ReplaceOrder order real

text \<open>
  A run of a method: the commands issued, and then either the exception that ended it
  or the value returned (\<open>Some False\<close> for \<open>return False\<close>, \<open>None\<close> for \<open>return None\<close> and
  for the end of the body).
\<close>

type_synonym outcome = "command list \<times> (error + bool option)"

section \<open>Starting-price orders\<close>

text \<open>
  \<open>_place_bsp_bets\<close>. The tick rounding \<open>get_nearest_price\<close> of the library and Python's
  \<open>round(x, 2)\<close> are parameters.
\<close>

definition place_bsp_bets ::
  "(npfloat \<Rightarrow> real) \<Rightarrow> (real \<Rightarrow> real) \<Rightarrow> strategy \<Rightarrow> market \<Rightarrow> runner \<Rightarrow>
   real option \<Rightarrow> real option \<Rightarrow> npfloat \<Rightarrow> trade \<Rightarrow> outcome" where
  "place_bsp_bets get_nearest_price round2 s m r back_price lay_price runner_probability t =
     (if trade_count m (selection_id r) (handicap r) = 0 then ([], Inr None)
      else case (back_price, lay_price) of
          (Some bp, Some lp) \<Rightarrow>
            let projected_bsp = (bp + lp) / 2;
                limit_back_price = np_mul (np_recip runner_probability) (round64 (1 + margin s));
                limit_back_price_tick = get_nearest_price limit_back_price;
                limit_lay_price = np_div (np_recip runner_probability) (round64 (1 + margin s));
                limit_lay_price_tick = get_nearest_price limit_lay_price;
                limit_lay_liability0 = round2 ((projected_bsp - 1) * stake s);
                limit_lay_liability = (if limit_lay_liability0 < 30 then 30 else limit_lay_liability0)
            in ((if min_back_price s \<le> limit_back_price_tick \<and> limit_back_price_tick \<le> max_back_price s
                 then [PlaceOrder t ''BACK'' (LimitOnCloseOrder (stake s) limit_back_price_tick)]
                 else [])
                @
                (if min_lay_price s \<le> limit_lay_price_tick \<and> limit_lay_price_tick \<le> max_lay_price s
                 then [PlaceOrder t ''LAY'' (LimitOnCloseOrder limit_lay_liability limit_lay_price_tick)]
                 else []),
                Inr None)
        | _ \<Rightarrow> ([], Inr None))"

section \<open>Generated probabilities\<close>

text \<open>
  \<open>_generate_probabilities\<close>. The random generator is a parameter: \<open>uniform n\<close> is the array
  \<open>np.random.default_rng().uniform(0, 1, n)\<close> of this call. The method returns the vector
  and leaves the strategy with its cache updated.
\<close>

definition generate_probabilities ::
  "(nat \<Rightarrow> real list) \<Rightarrow> strategy \<Rightarrow> market \<Rightarrow> market_book \<Rightarrow> strategy \<times> npfloat list" where
  "generate_probabilities uniform s m mb =
     (case market_probabilities s (market_id m) of
        None \<Rightarrow>
          let draws = uniform (number_of_active_runners mb);
              probabilities = map (\<lambda>x. np_div (Fin x) (Fin (sum_list draws))) draws
          in (s\<lparr>market_probabilities := (market_probabilities s)(market_id m \<mapsto> probabilities)\<rparr>,
              probabilities)
      | Some probabilities \<Rightarrow> (s, probabilities))"

section \<open>Processing a market book\<close>

text \<open>
  The first loop of \<open>process_market_book\<close> (lines 111 to 122). The result is the exception
  that ends it, or \<open>None\<close> when the loop runs to its end. For an invalid probability the
  argument of \<open>logging.warning\<close> is evaluated first: its f-string reads the name \<open>race\<close>,
  which is bound nowhere, so \<open>NameError\<close> is raised and \<open>return False\<close> is not reached.
\<close>

fun verify_probabilities :: "npfloat list \<Rightarrow> nat \<Rightarrow> runner list \<Rightarrow> error option" where
  "verify_probabilities race_probability runner_idx [] = None"
| "verify_probabilities race_probability runner_idx (r # rs) =
     (if status r \<noteq> ''ACTIVE'' then verify_probabilities race_probability runner_idx rs
      else if runner_idx \<ge> length race_probability then Some IndexError
      else
        let runner_probability = race_probability ! runner_idx
        in if isnan runner_probability \<or> runner_probability = Fin 0 then Some NameError
           else verify_probabilities race_probability (runner_idx + 1) rs)"

text \<open>The two halves of the body of the loop over the selection's orders (lines 156 to 168).\<close>

definition replace_back ::
  "strategy \<Rightarrow> npfloat \<Rightarrow> real option \<Rightarrow> real option \<Rightarrow> order \<Rightarrow> error + command list" where
  "replace_back s runner_probability lay_price back_price ord =
     (if side ord = ''BACK'' \<and> order_status ord = EXECUTABLE then
        (case get_back_price s runner_probability lay_price back_price of
           Inl e \<Rightarrow> Inl e
         | Inr None \<Rightarrow> Inr []
         | Inr (Some proposed_price) \<Rightarrow>
             if proposed_price < order_type_price (order_type ord)
             then Inr [ReplaceOrder ord proposed_price] else Inr [])
      else Inr [])"

definition replace_lay ::
  "strategy \<Rightarrow> npfloat \<Rightarrow> real option \<Rightarrow> real option \<Rightarrow> order \<Rightarrow> error + command list" where
  "replace_lay s runner_probability lay_price back_price ord =
     (if side ord = ''LAY'' \<and> order_status ord = EXECUTABLE then
        (case get_lay_price s runner_probability lay_price back_price of
           Inl e \<Rightarrow> Inl e
         | Inr None \<Rightarrow> Inr []
         | Inr (Some proposed_price) \<Rightarrow>
             if proposed_price > order_type_price (order_type ord)
             then Inr [ReplaceOrder ord proposed_price] else Inr [])
      else Inr [])"

text \<open>
  The loop over the selection's orders: the commands issued, and the exception that ended
  the loop or the two flags \<open>has_back_bets\<close> and \<open>has_lay_bets\<close> after it.
\<close>

fun update_orders ::
  "strategy \<Rightarrow> npfloat \<Rightarrow> real option \<Rightarrow> real option \<Rightarrow> bool \<Rightarrow> bool \<Rightarrow> order list \<Rightarrow>
   command list \<times> (error + bool \<times> bool)" where
  "update_orders s p lay_price back_price has_back_bets has_lay_bets [] =
     ([], Inr (has_back_bets, has_lay_bets))"
| "update_orders s p lay_price back_price has_back_bets has_lay_bets (ord # ords) =
     (case replace_back s p lay_price back_price ord of
        Inl e \<Rightarrow> ([], Inl e)
      | Inr c1 \<Rightarrow>
          (case replace_lay s p lay_price back_price ord of
             Inl e \<Rightarrow> (c1, Inl e)
           | Inr c2 \<Rightarrow>
               (case update_orders s p lay_price back_price
                       (has_back_bets \<or> side ord = ''BACK'') (has_lay_bets \<or> side ord = ''LAY'') ords of
                  (cs, res) \<Rightarrow> (c1 @ c2 @ cs, res))))"

text \<open>The placement of a new order on one side (lines 172 to 179, and 182 to 189).\<close>

definition offer_back ::
  "strategy \<Rightarrow> npfloat \<Rightarrow> real option \<Rightarrow> real option \<Rightarrow> trade \<Rightarrow> bool \<Rightarrow> error + command list" where
  "offer_back s runner_probability lay_price back_price t has_back_bets =
     (if \<not> has_back_bets then
        (case get_back_price s runner_probability lay_price back_price of
           Inl e \<Rightarrow> Inl e
         | Inr None \<Rightarrow> Inr []
         | Inr (Some proposed_price) \<Rightarrow>
             Inr [PlaceOrder t ''BACK'' (LimitOrder proposed_price (stake s))])
      else Inr [])"

definition offer_lay ::
  "strategy \<Rightarrow> npfloat \<Rightarrow> real option \<Rightarrow> real option \<Rightarrow> trade \<Rightarrow> bool \<Rightarrow> error + command list" where
  "offer_lay s runner_probability lay_price back_price t has_lay_bets =
     (if \<not> has_lay_bets then
        (case get_lay_price s runner_probability lay_price back_price of
           Inl e \<Rightarrow> Inl e
         | Inr None \<Rightarrow> Inr []
         | Inr (Some proposed_price) \<Rightarrow>
             Inr [PlaceOrder t ''LAY'' (LimitOrder proposed_price (stake s))])
      else Inr [])"

text \<open>
  The body of the second loop for an active runner in the modes other than \<open>bsp\<close>
  (lines 149 to 189): the commands issued, and the exception that ended it or \<open>None\<close>.
\<close>

definition trade_runner ::
  "strategy \<Rightarrow> market \<Rightarrow> runner \<Rightarrow> npfloat \<Rightarrow> trade \<Rightarrow> command list \<times> error option" where
  "trade_runner s m r runner_probability t =
     (let back_price = best_back_price r; lay_price = best_lay_price r in
      case update_orders s runner_probability lay_price back_price False False
             (strategy_selection_orders m (selection_id r) (handicap r)) of
        (c, Inl e) \<Rightarrow> (c, Some e)
      | (c, Inr (has_back_bets, has_lay_bets)) \<Rightarrow>
          (case offer_back s runner_probability lay_price back_price t has_back_bets of
             Inl e \<Rightarrow> (c, Some e)
           | Inr cb \<Rightarrow>
               (case offer_lay s runner_probability lay_price back_price t has_lay_bets of
                  Inl e \<Rightarrow> (c @ cb, Some e)
                | Inr cl \<Rightarrow> (c @ cb @ cl, None))))"

text \<open>The second loop of \<open>process_market_book\<close> (lines 125 to 191).\<close>

fun compare_odds ::
  "(npfloat \<Rightarrow> real) \<Rightarrow> (real \<Rightarrow> real) \<Rightarrow> strategy \<Rightarrow> market \<Rightarrow> market_book \<Rightarrow>
   npfloat list \<Rightarrow> nat \<Rightarrow> runner list \<Rightarrow> outcome" where
  "compare_odds get_nearest_price round2 s m mb race_probability runner_idx [] = ([], Inr None)"
| "compare_odds get_nearest_price round2 s m mb race_probability runner_idx (r # rs) =
     (if status r \<noteq> ''ACTIVE''
      then compare_odds get_nearest_price round2 s m mb race_probability runner_idx rs
      else if runner_idx \<ge> length race_probability then ([], Inl IndexError)
      else
        let runner_probability = race_probability ! runner_idx;
            t = \<lparr>trade_market_id = book_market_id mb, trade_selection_id = selection_id r,
                 trade_handicap = handicap r\<rparr>
        in if staking_strategy s = ''bsp''
           then place_bsp_bets get_nearest_price round2 s m r (best_back_price r)
                  (best_lay_price r) runner_probability t
           else
             (case trade_runner s m r runner_probability t of
                (c, Some e) \<Rightarrow> (c, Inl e)
              | (c, None) \<Rightarrow>
                  (case compare_odds get_nearest_price round2 s m mb race_probability
                          (runner_idx + 1) rs of
                     (cs, res) \<Rightarrow> (c @ cs, res))))"

text \<open>
  \<open>process_market_book\<close>: the strategy after the call (its cache may have grown), the
  commands issued and how the call ended.
\<close>

definition process_market_book ::
  "(npfloat \<Rightarrow> real) \<Rightarrow> (real \<Rightarrow> real) \<Rightarrow> (nat \<Rightarrow> real list) \<Rightarrow> strategy \<Rightarrow>
   market option \<Rightarrow> market_book option \<Rightarrow> strategy \<times> outcome" where
  "process_market_book get_nearest_price round2 uniform s market market_book =
     (case (market, market_book) of
        (Some m, Some mb) \<Rightarrow>
          (case generate_probabilities uniform s m mb of
             (s', race_probability) \<Rightarrow>
               if length race_probability \<noteq> number_of_active_runners mb
               then (s', [], Inr (Some False))
               else
                 (case verify_probabilities race_probability 0 (runners mb) of
                    Some e \<Rightarrow> (s', [], Inl e)
                  | None \<Rightarrow>
                      (s', compare_odds get_nearest_price round2 s' m mb race_probability 0
                             (runners mb))))
      | _ \<Rightarrow> (s, [], Inr (Some False)))"

section \<open>Settlement of a closed market\<close>

text \<open>
  The body of the inner loop of \<open>process_closed_market\<close> (lines 208 to 217), on the pair
  \<open>(market_back_pnl, market_lay_pnl)\<close>.
\<close>

definition settle_order :: "string \<Rightarrow> order \<Rightarrow> real \<times> real \<Rightarrow> real \<times> real" where
  "settle_order runner_status ord acc =
     (case acc of (back_pnl, lay_pnl) \<Rightarrow>
        let back_pnl1 = (if runner_status = ''WINNER'' \<and> side ord = ''BACK''
                         then back_pnl + size_matched ord * (order_type_price (order_type ord) - 1)
                         else back_pnl);
            lay_pnl1 = (if runner_status = ''WINNER'' \<and> side ord = ''LAY''
                        then lay_pnl - size_matched ord * (order_type_price (order_type ord) - 1)
                        else lay_pnl);
            back_pnl2 = (if runner_status = ''LOSER'' \<and> side ord = ''BACK''
                         then back_pnl1 - size_matched ord else back_pnl1);
            lay_pnl2 = (if runner_status = ''LOSER'' \<and> side ord = ''LAY''
                        then lay_pnl1 + size_matched ord else lay_pnl1)
        in (back_pnl2, lay_pnl2))"

text \<open>The two nested loops (lines 205 to 217).\<close>

fun settle_orders :: "string \<Rightarrow> order list \<Rightarrow> real \<times> real \<Rightarrow> real \<times> real" where
  "settle_orders runner_status [] acc = acc"
| "settle_orders runner_status (ord # ords) acc =
     settle_orders runner_status ords (settle_order runner_status ord acc)"

fun settle_runners :: "market \<Rightarrow> runner list \<Rightarrow> real \<times> real \<Rightarrow> real \<times> real" where
  "settle_runners m [] acc = acc"
| "settle_runners m (r # rs) acc =
     settle_runners m rs
       (settle_orders (status r) (strategy_selection_orders m (selection_id r) (handicap r)) acc)"

text \<open>
  \<open>process_closed_market\<close> returns nothing and logs its four locals, rounded; the model
  returns them as they are when the log line is reached. A base rate that is a non-empty
  string makes the product with the profit raise \<open>TypeError\<close>.
\<close>

record ledger =
  market_back_pnl :: real
  market_lay_pnl :: real
  market_pnl :: real
  market_commission :: real

definition process_closed_market :: "market \<Rightarrow> market_book \<Rightarrow> error + ledger" where
  "process_closed_market m mb =
     (case settle_runners m (runners mb) (0, 0) of (back_pnl, lay_pnl) \<Rightarrow>
        let pnl = back_pnl + lay_pnl in
        if pnl > 0 then
          let rate = (if market_base_rate mb = RateNone \<or> market_base_rate mb = RateNum 0
                         \<or> market_base_rate mb = RateStr []
                      then RateNum 5 else market_base_rate mb)
          in (case rate of
                RateNum x \<Rightarrow>
                  let commission = pnl * x / 100
                  in Inr \<lparr>market_back_pnl = back_pnl, market_lay_pnl = lay_pnl,
                          market_pnl = pnl - commission, market_commission = commission\<rparr>
              | _ \<Rightarrow> Inl TypeError)
        else Inr \<lparr>market_back_pnl = back_pnl, market_lay_pnl = lay_pnl,
                  market_pnl = pnl, market_commission = 0\<rparr>)"

section \<open>The filter of market files\<close>

text \<open>The values \<open>json.loads\<close> returns, and the values of a filter mapping.\<close>

datatype pyval =
    PNone | PBool bool | PNum real | PStr string | PList "pyval list"
  | PDict "(string \<times> pyval) list"

text \<open>Python's \<open>==\<close> on these values: a dict is its items, its keys distinct.\<close>

fun py_eq :: "pyval \<Rightarrow> pyval \<Rightarrow> bool"
  and py_eq_list :: "pyval list \<Rightarrow> pyval list \<Rightarrow> bool"
  and py_items_in :: "(string \<times> pyval) list \<Rightarrow> (string \<times> pyval) list \<Rightarrow> bool" where
  "py_eq PNone y = (y = PNone)"
| "py_eq (PBool b) y =
     (case y of PBool c \<Rightarrow> b = c | PNum x \<Rightarrow> (if b then 1 else 0) = x | _ \<Rightarrow> False)"
| "py_eq (PNum x) y =
     (case y of PNum z \<Rightarrow> x = z | PBool c \<Rightarrow> x = (if c then 1 else 0) | _ \<Rightarrow> False)"
| "py_eq (PStr t) y = (y = PStr t)"
| "py_eq (PList xs) y = (case y of PList ys \<Rightarrow> py_eq_list xs ys | _ \<Rightarrow> False)"
| "py_eq (PDict d) y =
     (case y of PDict e \<Rightarrow> length d = length e \<and> py_items_in d e | _ \<Rightarrow> False)"
| "py_eq_list [] ys = (ys = [])"
| "py_eq_list (x # xs) ys = (case ys of [] \<Rightarrow> False | z # zs \<Rightarrow> py_eq x z \<and> py_eq_list xs zs)"
| "py_items_in [] e = True"
| "py_items_in ((k, v) # d) e =
     (case map_of e k of None \<Rightarrow> False | Some w \<Rightarrow> py_eq v w \<and> py_items_in d e)"

text \<open>\<open>needle in hay\<close> for two strings.\<close>

fun startswith :: "string \<Rightarrow> string \<Rightarrow> bool" where
  "startswith hay [] = True"
| "startswith [] (c # cs) = False"
| "startswith (h # hs) (c # cs) = (h = c \<and> startswith hs cs)"

fun str_contains :: "string \<Rightarrow> string \<Rightarrow> bool" where
  "str_contains needle [] = (needle = [])"
| "str_contains needle (h # hs) = (startswith (h # hs) needle \<or> str_contains needle hs)"

text \<open>
  \<open>needle in x\<close> for a string \<open>needle\<close> and a decoded value \<open>x\<close>: a substring test on a
  string, membership in a list, a key test on a dict, \<open>TypeError\<close> on the rest.
\<close>

fun py_in :: "string \<Rightarrow> pyval \<Rightarrow> error + bool" where
  "py_in needle (PStr t) = Inr (str_contains needle t)"
| "py_in needle (PList xs) = Inr (list_ex (\<lambda>x. py_eq x (PStr needle)) xs)"
| "py_in needle (PDict d) = Inr (map_of d needle \<noteq> None)"
| "py_in needle _ = Inl TypeError"

text \<open>\<open>x[k]\<close> for a string \<open>k\<close>, and \<open>x[0]\<close>.\<close>

fun getitem :: "pyval \<Rightarrow> string \<Rightarrow> error + pyval" where
  "getitem (PDict d) k = (case map_of d k of None \<Rightarrow> Inl KeyError | Some v \<Rightarrow> Inr v)"
| "getitem _ k = Inl TypeError"

fun getitem0 :: "pyval \<Rightarrow> error + pyval" where
  "getitem0 (PList xs) = (case xs of [] \<Rightarrow> Inl IndexError | x # _ \<Rightarrow> Inr x)"
| "getitem0 (PStr t) = (case t of [] \<Rightarrow> Inl IndexError | c # _ \<Rightarrow> Inr (PStr [c]))"
| "getitem0 (PDict d) = Inl KeyError"
| "getitem0 _ = Inl TypeError"

text \<open>The loop over the filters (lines 78 to 80), falling through to \<open>return False\<close>.\<close>

fun apply_filters :: "pyval \<Rightarrow> (string \<times> pyval) list \<Rightarrow> error + bool" where
  "apply_filters market_definition [] = Inr False"
| "apply_filters market_definition ((k, v) # fs) =
     (case getitem market_definition k of
        Inl e \<Rightarrow> Inl e
      | Inr x \<Rightarrow> if \<not> py_eq x v then Inr True else apply_filters market_definition fs)"

text \<open>
  \<open>_filter_market_file\<close>. The file is what opening it, reading its first line and decoding
  that line gives: the exception raised, or the decoded value. The filter mapping is the
  list of its items; \<open>True\<close> means that the caller leaves the file out.
\<close>

definition filter_market_file :: "error + pyval \<Rightarrow> (string \<times> pyval) list \<Rightarrow> error + bool" where
  "filter_market_file market_file market_definition_filters =
     (if market_definition_filters \<noteq> [] then
        (case market_file of
           Inl e \<Rightarrow> Inl e
         | Inr data \<Rightarrow>
        (case getitem data ''mc'' of
           Inl e \<Rightarrow> Inl e
         | Inr mc \<Rightarrow>
        (case getitem0 mc of
           Inl e \<Rightarrow> Inl e
         | Inr mc0 \<Rightarrow>
        (case getitem mc0 ''marketDefinition'' of
           Inl e \<Rightarrow> Inl e
         | Inr market_definition \<Rightarrow>
        (case getitem market_definition ''name'' of
           Inl e \<Rightarrow> Inl e
         | Inr name \<Rightarrow>
        (case py_in ''Trot'' name of
           Inl e \<Rightarrow> Inl e
         | Inr True \<Rightarrow> Inr True
         | Inr False \<Rightarrow>
        (case py_in ''Pace'' name of
           Inl e \<Rightarrow> Inl e
         | Inr True \<Rightarrow> Inr True
         | Inr False \<Rightarrow> apply_filters market_definition market_definition_filters)))))))
      else Inr False)"

section \<open>Notions of the specification\<close>

text \<open>
  What the specification says an order adds to the back and to the lay profit of a closed
  market, given the status of its runner.
\<close>

definition back_contribution :: "string \<Rightarrow> order \<Rightarrow> real" where
  "back_contribution runner_status ord =
     (if side ord = ''BACK'' then
        (if runner_status = ''WINNER''
         then size_matched ord * (order_type_price (order_type ord) - 1)
         else if runner_status = ''LOSER'' then - size_matched ord
         else 0)
      else 0)"

definition lay_contribution :: "string \<Rightarrow> order \<Rightarrow> real" where
  "lay_contribution runner_status ord =
     (if side ord = ''LAY'' then
        (if runner_status = ''WINNER''
         then - (size_matched ord * (order_type_price (order_type ord) - 1))
         else if runner_status = ''LOSER'' then size_matched ord
         else 0)
      else 0)"

text \<open>
  A command of the continuous path respects the configured bounds when it is a limit
  order, or the replacement of an order, at a price between the minimum and the maximum
  of its side.
\<close>

definition price_in_bounds :: "strategy \<Rightarrow> string \<Rightarrow> real \<Rightarrow> bool" where
  "price_in_bounds s sd p =
     (if sd = ''BACK'' then min_back_price s \<le> p \<and> p \<le> max_back_price s
      else if sd = ''LAY'' then min_lay_price s \<le> p \<and> p \<le> max_lay_price s
      else False)"

fun command_in_bounds :: "strategy \<Rightarrow> command \<Rightarrow> bool" where
  "command_in_bounds s (PlaceOrder t sd (LimitOrder p sz)) = price_in_bounds s sd p"
| "command_in_bounds s (PlaceOrder t sd (LimitOnCloseOrder liability p)) = False"
| "command_in_bounds s (ReplaceOrder ord p) = price_in_bounds s (side ord) p"

section \<open>A market for the examples\<close>

text \<open>
  A strategy with the default configuration and a stake of 10, in a given staking mode,
  its margin being the float that Python writes 0.1;
  a market of one removed and two active runners, with an executable back order at 4.0
  resting on the first active runner; a generator whose draws 1 and 3 normalise to the
  probabilities 0.25 and 0.75, and one whose first draw is 0; a tick rounding that keeps
  a finite price. A price written in decimals stands for the float nearest to it;
  prices are only compared and copied.
\<close>

definition example_strategy :: "string \<Rightarrow> strategy" where
  "example_strategy mode =
     \<lparr>staking_strategy = mode, stake = 10, seconds_to_start = 60,
      margin = 3602879701896397 / 36028797018963968,
      min_back_price = 1, max_back_price = 150, min_lay_price = 1, max_lay_price = 150,
      market_probabilities = Map.empty\<rparr>"

definition resting_back :: order where
  "resting_back = \<lparr>side = ''BACK'', order_status = EXECUTABLE,
                     order_type = LimitOrder 4.0 10, size_matched = 0\<rparr>"

definition example_market :: "nat \<Rightarrow> market" where
  "example_market n =
     \<lparr>market_id = ''1.171755571'',
      strategy_selection_orders = (\<lambda>sel h. if sel = 101 then [resting_back] else []),
      trade_count = (\<lambda>sel h. n)\<rparr>"

definition example_runners :: "runner list" where
  "example_runners =
     [\<lparr>selection_id = 100, handicap = 0, status = ''REMOVED'',
       best_back_price = None, best_lay_price = None\<rparr>,
      \<lparr>selection_id = 101, handicap = 0, status = ''ACTIVE'',
       best_back_price = Some 3.8, best_lay_price = Some 3.9\<rparr>,
      \<lparr>selection_id = 102, handicap = 0, status = ''ACTIVE'',
       best_back_price = Some 1.3, best_lay_price = Some 1.32\<rparr>]"

definition example_book :: market_book where
  "example_book =
     \<lparr>book_market_id = ''1.171755571'', number_of_active_runners = 2,
      runners = example_runners, market_base_rate = RateNone\<rparr>"

definition example_uniform :: "nat \<Rightarrow> real list" where
  "example_uniform n = (if n = 2 then [1, 3] else replicate n 1)"

definition zero_uniform :: "nat \<Rightarrow> real list" where
  "zero_uniform n = (if n = 2 then [0, 1] else replicate n 1)"

fun example_tick :: "npfloat \<Rightarrow> real" where
  "example_tick (Fin x) = x"
| "example_tick _ = 1000"

text \<open>
  A closed market: a removed runner, a winner backed at 3.0 and a loser laid at 3.0, each
  order matched for 10.
\<close>

definition closed_market :: market where
  "closed_market =
     \<lparr>market_id = ''1.171755571'',
      strategy_selection_orders = (\<lambda>sel h.
         if sel = 101 then [\<lparr>side = ''BACK'', order_status = NOT_EXECUTABLE ''EXECUTION_COMPLETE'',
                             order_type = LimitOrder 3.0 10, size_matched = 10\<rparr>]
         else if sel = 102 then [\<lparr>side = ''LAY'', order_status = NOT_EXECUTABLE ''EXECUTION_COMPLETE'',
                             order_type = LimitOrder 3.0 10, size_matched = 10\<rparr>]
         else [\<lparr>side = ''BACK'', order_status = NOT_EXECUTABLE ''EXECUTION_COMPLETE'',
                 order_type = LimitOrder 8.0 10, size_matched = 10\<rparr>]),
      trade_count = (\<lambda>sel h. 1)\<rparr>"

definition closed_book :: "base_rate \<Rightarrow> market_book" where
  "closed_book rate =
     \<lparr>book_market_id = ''1.171755571'', number_of_active_runners = 0,
      runners =
        [\<lparr>selection_id = 100, handicap = 0, status = ''REMOVED'',
          best_back_price = None, best_lay_price = None\<rparr>,
         \<lparr>selection_id = 101, handicap = 0, status = ''WINNER'',
          best_back_price = None, best_lay_price = None\<rparr>,
         \<lparr>selection_id = 102, handicap = 0, status = ''LOSER'',
          best_back_price = None, best_lay_price = None\<rparr>],
      market_base_rate = rate\<rparr>"

section \<open>Properties\<close>

subsection \<open>Rounding\<close>

lemma bit_length_lower: "0 < n \<Longrightarrow> 2 ^ (bit_length n - 1) \<le> n"
proof (induction n rule: bit_length.induct)
  case (1 n)
  show ?case
  proof (cases "n div 2 = 0")
    case True
    with "1.prems" have "n = 1" by (simp add: div_eq_0_iff)
    then show ?thesis by (simp add: bit_length.simps)
  next
    case False
    then have pos: "0 < n div 2" by simp
    with "1.IH" "1.prems" have ih: "2 ^ (bit_length (n div 2) - 1) \<le> n div 2" by simp
    from pos have "0 < bit_length (n div 2)" by (simp add: bit_length.simps[of "n div 2"])
    then have "bit_length n - 1 = Suc (bit_length (n div 2) - 1)"
      using "1.prems" by (simp add: bit_length.simps[of n])
    then have "(2::nat) ^ (bit_length n - 1) = 2 * 2 ^ (bit_length (n div 2) - 1)" by simp
    also have "\<dots> \<le> 2 * (n div 2)" using ih by simp
    also have "\<dots> \<le> n" by simp
    finally show ?thesis .
  qed
qed

lemma pow2_pos: "0 < pow2 k"
  by (simp add: pow2_def)







text \<open>
  The exponent is the one of the definition of binary64, and a rounded value is within
  half a unit in the last place of the exact one.
\<close>

lemma bit_length_upper: "n < 2 ^ bit_length n"
proof (induction n rule: bit_length.induct)
  case (1 n)
  show ?case
  proof (cases "n = 0")
    case True
    then show ?thesis by (simp add: bit_length.simps)
  next
    case False
    with "1.IH" have "n div 2 < 2 ^ bit_length (n div 2)" by simp
    then have "n < 2 * 2 ^ bit_length (n div 2)" by linarith
    with False show ?thesis by (simp add: bit_length.simps[of n])
  qed
qed

lemma pow2_neg: "pow2 (- int j) = 1 / 2 ^ j"
  by (cases "j = 0") (simp_all add: pow2_def)

lemma pow2_neg_Suc: "pow2 (1 - int (Suc j)) = 1 / 2 ^ j"
proof -
  have "1 - int (Suc j) = - int j" by simp
  then show ?thesis by (simp only: pow2_neg)
qed

lemma exponent_bounds:
  assumes "x \<noteq> 0"
  shows "pow2 (exponent x) \<le> \<bar>x\<bar> \<and> \<bar>x\<bar> < pow2 (exponent x + 1)"
proof (cases "1 \<le> \<bar>x\<bar>")
  case True
  let ?n = "nat \<lfloor>\<bar>x\<bar>\<rfloor>"
  from True have n: "0 < ?n" by simp
  then have bl: "0 < bit_length ?n" by (simp add: bit_length.simps[of ?n])
  from True have e: "exponent x = int (bit_length ?n - 1)"
    using bl by (simp add: exponent_def)
  have "(2::real) ^ (bit_length ?n - 1) \<le> real ?n"
    using bit_length_lower[OF n] by (metis of_nat_le_iff of_nat_numeral of_nat_power)
  also have "\<dots> \<le> \<bar>x\<bar>" using True by simp
  finally have lo: "pow2 (exponent x) \<le> \<bar>x\<bar>" by (simp add: e pow2_def)
  have "Suc ?n \<le> 2 ^ bit_length ?n"
    using bit_length_upper[of ?n] by (rule Suc_leI)
  then have "real (Suc ?n) \<le> 2 ^ bit_length ?n"
    by (metis of_nat_le_iff of_nat_numeral of_nat_power)
  moreover have "\<bar>x\<bar> < real (Suc ?n)" using True by simp linarith
  ultimately have "\<bar>x\<bar> < 2 ^ bit_length ?n" by linarith
  moreover have "exponent x + 1 = int (bit_length ?n)" using e bl by simp
  ultimately have "\<bar>x\<bar> < pow2 (exponent x + 1)" by (simp add: pow2_def)
  with lo show ?thesis by simp
next
  case False
  let ?a = "\<bar>x\<bar>"
  let ?N = "nat (\<lceil>1 / ?a\<rceil> - 1)"
  let ?k = "bit_length ?N"
  from assms False have a: "0 < ?a" "?a < 1" by simp_all
  then have inv: "1 < 1 / ?a" by (simp add: less_divide_eq)
  then have c2: "2 \<le> \<lceil>1 / ?a\<rceil>" by linarith
  then have N: "0 < ?N" by simp
  have e: "exponent x = - int ?k" using False by (simp add: exponent_def)
  have "int ?N = \<lceil>1 / ?a\<rceil> - 1" using c2 assms by simp
  then have Neq: "real ?N = real_of_int (\<lceil>1 / ?a\<rceil> - 1)"
    by (metis of_int_of_nat_eq)
  have Nlt: "real ?N < 1 / ?a"
    unfolding Neq using ceiling_correct[of "1 / ?a"] by simp
  have Nge: "1 / ?a \<le> real ?N + 1"
    unfolding Neq using ceiling_correct[of "1 / ?a"] by simp
  have k: "0 < ?k" using N by (simp add: bit_length.simps[of ?N])
  have "(2::real) ^ (?k - 1) \<le> real ?N"
    using bit_length_lower[OF N] by (metis of_nat_le_iff of_nat_numeral of_nat_power)
  with Nlt have "2 ^ (?k - 1) < 1 / ?a" by linarith
  then have hi: "?a < 1 / 2 ^ (?k - 1)"
    using a by (simp add: field_simps)
  have "Suc ?N \<le> 2 ^ ?k" using bit_length_upper[of ?N] by (rule Suc_leI)
  then have "real (Suc ?N) \<le> 2 ^ ?k"
    by (metis of_nat_le_iff of_nat_numeral of_nat_power)
  moreover have "real (Suc ?N) = real ?N + 1" by simp
  ultimately have "1 / ?a \<le> 2 ^ ?k" using Nge by linarith
  then have lo: "1 / 2 ^ ?k \<le> ?a"
    using a by (simp add: field_simps)
  have p1: "pow2 (exponent x) = 1 / 2 ^ ?k"
    using k by (simp add: e pow2_def)
  from k obtain j where j: "?k = Suc j" by (cases ?k) auto
  have "exponent x + 1 = 1 - int (Suc j)" using e j by simp
  then have p2: "pow2 (exponent x + 1) = 1 / 2 ^ (?k - 1)"
    by (simp only: pow2_neg_Suc j diff_Suc_1)
  from lo hi p1 p2 show ?thesis by simp
qed

lemma round_half_even_error: "\<bar>real_of_int (round_half_even y) - y\<bar> \<le> 1 / 2"
  by (simp add: round_half_even_def Let_def)

lemma round64_error:
  assumes "round64 x = Fin y"
  shows "\<bar>y - x\<bar> \<le> pow2 (max (exponent x) (- 1022) - 52) / 2"
proof (cases "x = 0")
  case True
  with assms show ?thesis using pow2_pos[of "max (exponent 0) (- 1022) - 52"]
    by (simp add: round64_def)
next
  case False
  let ?q = "pow2 (max (exponent x) (- 1022) - 52)"
  have q: "0 < ?q" by (rule pow2_pos)
  from assms False have y: "y = real_of_int (round_half_even (x / ?q)) * ?q"
    by (simp add: round64_def Let_def split: if_splits)
  have "y - x = (real_of_int (round_half_even (x / ?q)) - x / ?q) * ?q"
    using q unfolding y by (simp add: left_diff_distrib)
  then have "\<bar>y - x\<bar> = \<bar>real_of_int (round_half_even (x / ?q)) - x / ?q\<bar> * ?q"
    using q by (simp add: abs_mult)
  also have "\<dots> \<le> (1 / 2) * ?q"
    using round_half_even_error[of "x / ?q"] q by (intro mult_right_mono) auto
  finally show ?thesis by simp
qed

subsection \<open>Candidate prices and starting-price orders\<close>


text \<open>
  Values of the rounding, as Python prints them: \<open>0.1\<close>, \<open>1 + 0.1 = 1.1\<close>,
  \<open>4 / 1.1 = 3.6363636363636362\<close>, \<open>4 / 3 = 1.3333333333333333\<close>,
  \<open>64 / 49 = 1.3061224489795917\<close> and \<open>1.3061224489795917 * 1.53125 = 1.9999999999999998\<close>.
  The last one is why, at the probability 49/64 and the margin 17/32, a best back price
  of 2 is refused although the exact product is 2.
\<close>

lemmas round64_eval =
  round64_def exponent_def pow2_def round_half_even_def bit_length.simps Let_def

lemma round64_examples:
  "round64 (1 / 10) = Fin (3602879701896397 / 36028797018963968)"
  "round64 (1 + 3602879701896397 / 36028797018963968) = Fin (2476979795053773 / 2251799813685248)"
  "round64 (4 / (2476979795053773 / 2251799813685248)) = Fin (8188362958855447 / 2251799813685248)"
  "round64 (4 / 3) = Fin (6004799503160661 / 4503599627370496)"
  "round64 (64 / 49) = Fin (5882252574524729 / 4503599627370496)"
  "round64 (5882252574524729 / 4503599627370496 * (49 / 32))
     = Fin (9007199254740991 / 4503599627370496)"
  by (simp_all add: round64_eval)


text \<open>
  The lay side rounds in the same way: at the probability 0.75 and the margin 0.1 the
  quotient is computed as the float 1.212121212121212, so a best lay price equal to that
  float is accepted.
\<close>

lemma get_lay_price_rounding_example:
  "get_lay_price (example_strategy ''take'') (Fin 0.75)
     (Some (1364727159809241 / 1125899906842624)) (Some 1.2)
   = Inr (Some (1364727159809241 / 1125899906842624))"
  by (simp add: get_lay_price_def example_strategy_def round64_eval)

text \<open>
  C2. In the starting-price path, a runner whose recorded trade count is zero gets no order:
  \<open>_place_bsp_bets\<close> returns at once, whatever the prices, the probability and the tick
  rounding are.
\<close>

theorem place_bsp_bets_zero_trade_count:
  assumes "trade_count m (selection_id r) (handicap r) = 0"
  shows "place_bsp_bets get_nearest_price round2 s m r back_price lay_price runner_probability t
         = ([], Inr None)"
  using assms by (simp add: place_bsp_bets_def)

theorem place_bsp_bets_zero_trade_count_witness:
  "trade_count (example_market 0) 101 0 = 0
   \<and> place_bsp_bets example_tick (\<lambda>x. x) (example_strategy ''bsp'') (example_market 0)
        \<lparr>selection_id = 101, handicap = 0, status = ''ACTIVE'',
         best_back_price = Some 4.0, best_lay_price = Some 4.2\<rparr>
        (Some 4.0) (Some 4.2) (Fin 0.25)
        \<lparr>trade_market_id = ''1.171755571'', trade_selection_id = 101, trade_handicap = 0\<rparr>
      = ([], Inr None)"
  using place_bsp_bets_zero_trade_count [of "example_market 0"
      "\<lparr>selection_id = 101, handicap = 0, status = ''ACTIVE'',
        best_back_price = Some 4.0, best_lay_price = Some 4.2\<rparr>"
      example_tick "\<lambda>x. x" "example_strategy ''bsp''" "Some 4.0" "Some 4.2" "Fin 0.25"
      "\<lparr>trade_market_id = ''1.171755571'', trade_selection_id = 101, trade_handicap = 0\<rparr>"]
  by (simp add: example_market_def)

subsection \<open>The filter of market files\<close>

lemma startswith_iff: "startswith hay needle \<longleftrightarrow> (\<exists>suf. hay = needle @ suf)"
  by (induction hay needle rule: startswith.induct) auto

lemma str_contains_iff: "str_contains needle hay \<longleftrightarrow> (\<exists>pre suf. hay = pre @ needle @ suf)"
proof (induction hay)
  case Nil
  then show ?case by auto
next
  case (Cons h hs)
  show ?case
  proof
    assume "str_contains needle (h # hs)"
    then consider "startswith (h # hs) needle" | "str_contains needle hs" by auto
    then show "\<exists>pre suf. h # hs = pre @ needle @ suf"
    proof cases
      case 1
      then obtain suf where "h # hs = needle @ suf" by (auto simp: startswith_iff)
      then have "h # hs = [] @ needle @ suf" by simp
      then show ?thesis by blast
    next
      case 2
      with Cons.IH obtain pre suf where "hs = pre @ needle @ suf" by blast
      then have "h # hs = (h # pre) @ needle @ suf" by simp
      then show ?thesis by blast
    qed
  next
    assume "\<exists>pre suf. h # hs = pre @ needle @ suf"
    then obtain pre suf where e: "h # hs = pre @ needle @ suf" by blast
    show "str_contains needle (h # hs)"
    proof (cases pre)
      case Nil
      with e have "startswith (h # hs) needle" by (auto simp: startswith_iff)
      then show ?thesis by simp
    next
      case (Cons a pre')
      with e have "hs = pre' @ needle @ suf" by simp
      with Cons.IH have "str_contains needle hs" by blast
      then show ?thesis by simp
    qed
  qed
qed

text \<open>
  C3, as the specification states it: a market file whose market-definition name contains
  \<open>Trot\<close> or \<open>Pace\<close> is left out for every filter mapping, the empty one included. It fails
  for the empty mapping: the file is not even read, and it is kept.
\<close>

theorem filter_market_file_empty_filters_keeps_trot:
  "str_contains ''Trot'' ''2m Trot M''
   \<and> filter_market_file
     (Inr (PDict [(''mc'', PList [PDict [(''marketDefinition'',
        PDict [(''name'', PStr ''2m Trot M''), (''marketType'', PStr ''WIN'')])]])])) []
   = Inr False"
  by (simp add: filter_market_file_def)

text \<open>
  C3, amended: for every filter mapping that is not empty, a market file whose
  market-definition name is a string containing \<open>Trot\<close> or \<open>Pace\<close> is left out, whatever
  the filter keys and values are; with the empty mapping no file is left out.
\<close>

theorem filter_market_file_harness:
  assumes "market_definition_filters \<noteq> []"
    and "getitem data ''mc'' = Inr mc" and "getitem0 mc = Inr mc0"
    and "getitem mc0 ''marketDefinition'' = Inr market_definition"
    and "getitem market_definition ''name'' = Inr (PStr name)"
    and "(\<exists>pre suf. name = pre @ ''Trot'' @ suf) \<or> (\<exists>pre suf. name = pre @ ''Pace'' @ suf)"
  shows "filter_market_file (Inr data) market_definition_filters = Inr True
         \<and> filter_market_file market_file [] = Inr False"
proof -
  from assms(6) have "str_contains ''Trot'' name \<or> str_contains ''Pace'' name"
    unfolding str_contains_iff by blast
  then show ?thesis
    using assms(1-5) by (auto simp: filter_market_file_def split: bool.splits)
qed

theorem filter_market_file_harness_witness:
  "filter_market_file
     (Inr (PDict [(''mc'', PList [PDict [(''marketDefinition'',
        PDict [(''name'', PStr ''2m Pace M''), (''marketType'', PStr ''WIN'')])]])]))
     [(''marketType'', PStr ''WIN'')] = Inr True
   \<and> filter_market_file (Inl OSError) [] = Inr False"
proof -
  have "''2m Pace M'' = ''2m '' @ ''Pace'' @ '' M''" by simp
  then have "(\<exists>pre suf. ''2m Pace M'' = pre @ ''Trot'' @ suf)
      \<or> (\<exists>pre suf. ''2m Pace M'' = pre @ ''Pace'' @ suf)" by blast
  from filter_market_file_harness [of "[(''marketType'', PStr ''WIN'')]"
      "PDict [(''mc'', PList [PDict [(''marketDefinition'',
        PDict [(''name'', PStr ''2m Pace M''), (''marketType'', PStr ''WIN'')])]])]"
      "PList [PDict [(''marketDefinition'',
        PDict [(''name'', PStr ''2m Pace M''), (''marketType'', PStr ''WIN'')])]]"
      "PDict [(''marketDefinition'',
        PDict [(''name'', PStr ''2m Pace M''), (''marketType'', PStr ''WIN'')])]"
      "PDict [(''name'', PStr ''2m Pace M''), (''marketType'', PStr ''WIN'')]"
      "''2m Pace M''" "Inl OSError", OF _ _ _ _ _ this]
  show ?thesis by simp
qed

subsection \<open>Settlement\<close>

lemma settle_order_add:
  "settle_order st ord (b, l) = (b + back_contribution st ord, l + lay_contribution st ord)"
  by (simp add: settle_order_def back_contribution_def lay_contribution_def Let_def)

lemma settle_orders_sum:
  "settle_orders st ords (b, l) =
     (b + (\<Sum>ord\<leftarrow>ords. back_contribution st ord), l + (\<Sum>ord\<leftarrow>ords. lay_contribution st ord))"
  by (induction ords arbitrary: b l) (simp_all add: settle_order_add)

lemma settle_runners_sum:
  "settle_runners m rs (b, l) =
     (b + (\<Sum>r\<leftarrow>rs. \<Sum>ord\<leftarrow>strategy_selection_orders m (selection_id r) (handicap r).
              back_contribution (status r) ord),
      l + (\<Sum>r\<leftarrow>rs. \<Sum>ord\<leftarrow>strategy_selection_orders m (selection_id r) (handicap r).
              lay_contribution (status r) ord))"
  by (induction rs arbitrary: b l) (simp_all add: settle_orders_sum)

lemma process_closed_market_returns:
  assumes "\<forall>c cs. market_base_rate mb \<noteq> RateStr (c # cs)"
  shows "\<exists>L. process_closed_market m mb = Inr L"
proof (cases "market_base_rate mb")
  case RateNone
  then show ?thesis by (simp add: process_closed_market_def Let_def split: prod.splits)
next
  case (RateNum x)
  then show ?thesis by (simp add: process_closed_market_def Let_def split: prod.splits)
next
  case (RateStr t)
  with assms have "t = []" by (cases t) auto
  with RateStr show ?thesis by (simp add: process_closed_market_def Let_def split: prod.splits)
qed

text \<open>
  C6. The two loops of \<open>process_closed_market\<close> leave in the back profit and in the lay
  profit the sums, over the runners and over the strategy's orders on each runner, of what
  the specification says an order contributes: for a winner, \<open>matchedSize * (price - 1)\<close>
  to the back profit from a back order and its opposite to the lay profit from a lay
  order; for a loser, \<open>- matchedSize\<close> and \<open>+ matchedSize\<close>; nothing for another status.
  When the base rate is not a non-empty string the call returns, these sums are the back
  and the lay profit it reports, and the total before commission (the net profit plus the
  commission) is the back profit plus the lay profit.
\<close>

theorem process_closed_market_pnl:
  assumes "\<forall>c cs. market_base_rate mb \<noteq> RateStr (c # cs)"
  shows "settle_runners m (runners mb) (0, 0) =
           ((\<Sum>r\<leftarrow>runners mb. \<Sum>ord\<leftarrow>strategy_selection_orders m (selection_id r) (handicap r).
              back_contribution (status r) ord),
            (\<Sum>r\<leftarrow>runners mb. \<Sum>ord\<leftarrow>strategy_selection_orders m (selection_id r) (handicap r).
              lay_contribution (status r) ord))
       \<and> (\<exists>L. process_closed_market m mb = Inr L
          \<and> market_back_pnl L =
              (\<Sum>r\<leftarrow>runners mb. \<Sum>ord\<leftarrow>strategy_selection_orders m (selection_id r) (handicap r).
                 back_contribution (status r) ord)
          \<and> market_lay_pnl L =
              (\<Sum>r\<leftarrow>runners mb. \<Sum>ord\<leftarrow>strategy_selection_orders m (selection_id r) (handicap r).
                 lay_contribution (status r) ord)
          \<and> market_pnl L + market_commission L = market_back_pnl L + market_lay_pnl L)"
proof -
  from process_closed_market_returns[OF assms] obtain L
    where L: "process_closed_market m mb = Inr L" by blast
  then have "market_back_pnl L =
              (\<Sum>r\<leftarrow>runners mb. \<Sum>ord\<leftarrow>strategy_selection_orders m (selection_id r) (handicap r).
                 back_contribution (status r) ord)
          \<and> market_lay_pnl L =
              (\<Sum>r\<leftarrow>runners mb. \<Sum>ord\<leftarrow>strategy_selection_orders m (selection_id r) (handicap r).
                 lay_contribution (status r) ord)
          \<and> market_pnl L + market_commission L = market_back_pnl L + market_lay_pnl L"
    by (auto simp: process_closed_market_def settle_runners_sum Let_def
        split: if_splits base_rate.splits)
  with L show ?thesis by (simp add: settle_runners_sum)
qed

theorem process_closed_market_pnl_witness:
  "process_closed_market closed_market (closed_book RateNone) =
     Inr \<lparr>market_back_pnl = 20, market_lay_pnl = 10, market_pnl = 28.5, market_commission = 1.5\<rparr>
   \<and> (\<Sum>r\<leftarrow>runners (closed_book RateNone).
        \<Sum>ord\<leftarrow>strategy_selection_orders closed_market (selection_id r) (handicap r).
          back_contribution (status r) ord) = 20
   \<and> (\<Sum>r\<leftarrow>runners (closed_book RateNone).
        \<Sum>ord\<leftarrow>strategy_selection_orders closed_market (selection_id r) (handicap r).
          lay_contribution (status r) ord) = 10"
  using process_closed_market_pnl [of "closed_book RateNone" closed_market]
  by (simp add: process_closed_market_def closed_market_def closed_book_def settle_order_def Let_def)

text \<open>
  C4, as the specification states it: on a positive total the commission is the total
  times the declared base rate over 100, the rate being replaced by 5 only when it is
  absent, null or empty. It fails for a declared base rate of 0: the commission on a
  total of 30 is then 1.5, at the rate 5, and not \<open>30 * 0 / 100\<close>.
\<close>

theorem process_closed_market_zero_rate:
  "process_closed_market closed_market (closed_book (RateNum 0)) =
     Inr \<lparr>market_back_pnl = 20, market_lay_pnl = 10, market_pnl = 28.5, market_commission = 1.5\<rparr>
   \<and> (1.5 :: real) \<noteq> 30 * 0 / 100"
  by (simp add: process_closed_market_def closed_market_def closed_book_def settle_order_def Let_def)

text \<open>
  C4, amended: at the close of a market whose base rate is not a non-empty string, the
  call returns; if the total (back profit plus lay profit) is positive, the commission is
  the total times the base rate over 100, where the base rate is the declared one,
  replaced by 5 when it is null, zero or the empty string, and the net profit is the total
  minus the commission; otherwise the commission is 0 and the net profit is the total.
\<close>

theorem process_closed_market_commission:
  assumes "\<forall>c cs. market_base_rate mb \<noteq> RateStr (c # cs)"
  shows "\<exists>L. process_closed_market m mb = Inr L \<and>
     (let total = market_back_pnl L + market_lay_pnl L;
          base = (case market_base_rate mb of
                    RateNone \<Rightarrow> 5
                  | RateNum x \<Rightarrow> (if x = 0 then 5 else x)
                  | RateStr t \<Rightarrow> 5)
      in if total > 0
         then market_commission L = total * base / 100 \<and> market_pnl L = total - market_commission L
         else market_commission L = 0 \<and> market_pnl L = total)"
proof -
  from process_closed_market_returns[OF assms] obtain L
    where L: "process_closed_market m mb = Inr L" by blast
  then show ?thesis
    using assms
    by (auto simp: process_closed_market_def Let_def split: prod.splits if_splits base_rate.splits)
qed

theorem process_closed_market_commission_witness:
  "process_closed_market closed_market (closed_book (RateNum 2)) =
     Inr \<lparr>market_back_pnl = 20, market_lay_pnl = 10, market_pnl = 29.4, market_commission = 0.6\<rparr>
   \<and> (0.6 :: real) = (20 + 10) * 2 / 100"
  using process_closed_market_commission [of "closed_book (RateNum 2)" closed_market]
  by (simp add: process_closed_market_def closed_market_def closed_book_def settle_order_def Let_def)

subsection \<open>Replacing resting orders\<close>

lemma get_back_price_no_error:
  "staking_strategy s = ''take'' \<or> staking_strategy s = ''offer'' \<Longrightarrow>
   \<exists>c. get_back_price s p lay bk = Inr c"
  by (auto simp: get_back_price_def Let_def split: option.splits)

lemma get_lay_price_no_error:
  "staking_strategy s = ''take'' \<or> staking_strategy s = ''offer'' \<Longrightarrow>
   \<exists>c. get_lay_price s p lay bk = Inr c"
  by (auto simp: get_lay_price_def Let_def split: option.splits)

lemma replace_back_commands:
  "staking_strategy s = ''take'' \<or> staking_strategy s = ''offer'' \<Longrightarrow>
   \<exists>c. replace_back s p lay bk ord = Inr c \<and>
     (\<forall>x. x \<in> set c \<longleftrightarrow>
        (\<exists>q. x = ReplaceOrder ord q \<and> side ord = ''BACK'' \<and> order_status ord = EXECUTABLE
           \<and> get_back_price s p lay bk = Inr (Some q) \<and> q < order_type_price (order_type ord)))"
  using get_back_price_no_error[of s p lay bk]
  by (auto simp: replace_back_def split: option.splits)

lemma replace_lay_commands:
  "staking_strategy s = ''take'' \<or> staking_strategy s = ''offer'' \<Longrightarrow>
   \<exists>c. replace_lay s p lay bk ord = Inr c \<and>
     (\<forall>x. x \<in> set c \<longleftrightarrow>
        (\<exists>q. x = ReplaceOrder ord q \<and> side ord = ''LAY'' \<and> order_status ord = EXECUTABLE
           \<and> get_lay_price s p lay bk = Inr (Some q) \<and> q > order_type_price (order_type ord)))"
  using get_lay_price_no_error[of s p lay bk]
  by (auto simp: replace_lay_def split: option.splits)

lemma update_orders_commands:
  assumes "staking_strategy s = ''take'' \<or> staking_strategy s = ''offer''"
  shows "x \<in> set (fst (update_orders s p lay bk hb hl ords)) \<longleftrightarrow>
     (\<exists>ord q. ord \<in> set ords \<and> x = ReplaceOrder ord q \<and> order_status ord = EXECUTABLE \<and>
        (side ord = ''BACK'' \<and> get_back_price s p lay bk = Inr (Some q)
           \<and> q < order_type_price (order_type ord)
         \<or> side ord = ''LAY'' \<and> get_lay_price s p lay bk = Inr (Some q)
           \<and> q > order_type_price (order_type ord)))"
proof (induction ords arbitrary: hb hl)
  case Nil
  then show ?case by simp
next
  case (Cons ord ords)
  obtain c1 where c1: "replace_back s p lay bk ord = Inr c1"
    and c1s: "\<And>x. x \<in> set c1 \<longleftrightarrow>
        (\<exists>q. x = ReplaceOrder ord q \<and> side ord = ''BACK'' \<and> order_status ord = EXECUTABLE
           \<and> get_back_price s p lay bk = Inr (Some q) \<and> q < order_type_price (order_type ord))"
    using replace_back_commands[OF assms, of p lay bk ord] by blast
  obtain c2 where c2: "replace_lay s p lay bk ord = Inr c2"
    and c2s: "\<And>x. x \<in> set c2 \<longleftrightarrow>
        (\<exists>q. x = ReplaceOrder ord q \<and> side ord = ''LAY'' \<and> order_status ord = EXECUTABLE
           \<and> get_lay_price s p lay bk = Inr (Some q) \<and> q > order_type_price (order_type ord))"
    using replace_lay_commands[OF assms, of p lay bk ord] by blast
  have "fst (update_orders s p lay bk hb hl (ord # ords)) =
      c1 @ c2 @ fst (update_orders s p lay bk (hb \<or> side ord = ''BACK'')
                       (hl \<or> side ord = ''LAY'') ords)"
    by (simp add: c1 c2 split: prod.splits)
  then show ?case
    using Cons.IH[of "hb \<or> side ord = ''BACK''" "hl \<or> side ord = ''LAY''"] c1s c2s
    by auto
qed

text \<open>
  C5. In the modes \<open>take\<close> and \<open>offer\<close>, for an executable order among the strategy's orders
  on a runner, the loop over these orders issues the command that replaces it at a price
  \<open>q\<close> exactly when \<open>q\<close> is the fresh candidate price of its side and is strictly better
  than its own price: strictly lower for a back order, strictly higher for a lay order.
  The command names the order itself and the new price only, so the size of the order is
  kept. With no candidate, or one that is equal or worse, no replacement of the order is
  issued at any price.
\<close>

theorem update_orders_replaces_iff:
  assumes "staking_strategy s = ''take'' \<or> staking_strategy s = ''offer''"
    and "ord \<in> set ords" and "order_status ord = EXECUTABLE"
  shows "ReplaceOrder ord q \<in> set (fst (update_orders s p lay bk hb hl ords)) \<longleftrightarrow>
        (side ord = ''BACK'' \<and> get_back_price s p lay bk = Inr (Some q)
           \<and> q < order_type_price (order_type ord)
         \<or> side ord = ''LAY'' \<and> get_lay_price s p lay bk = Inr (Some q)
           \<and> q > order_type_price (order_type ord))"
  using assms(2,3) by (auto simp: update_orders_commands[OF assms(1)])

theorem update_orders_replaces_iff_witness:
  "ReplaceOrder resting_back 3.8 \<in>
     set (fst (update_orders (example_strategy ''offer'') (Fin 0.25) (Some 3.8) (Some 3.7)
                 False False [resting_back]))
   \<and> ReplaceOrder resting_back 4.2 \<notin>
     set (fst (update_orders (example_strategy ''offer'') (Fin 0.25) (Some 4.2) (Some 4.1)
                 False False [resting_back]))"
  using update_orders_replaces_iff [of "example_strategy ''offer''" resting_back "[resting_back]"
      "3.8" "Fin 0.25" "Some 3.8" "Some 3.7" False False]
    update_orders_replaces_iff [of "example_strategy ''offer''" resting_back "[resting_back]"
      "4.2" "Fin 0.25" "Some 4.2" "Some 4.1" False False]
  by (simp add: example_strategy_def resting_back_def get_back_price_def get_lay_price_def
      round64_eval)

subsection \<open>The cache of probabilities\<close>

text \<open>
  C8. Two calls of \<open>_generate_probabilities\<close> for the same market id, one after the other,
  return the same vector, whatever the runner count of the second market book and the
  draws of the second call are; the second call leaves the strategy, and so the stored
  vector, unchanged.
\<close>

theorem generate_probabilities_twice:
  assumes "market_id m2 = market_id m1"
    and "generate_probabilities uniform1 s m1 mb1 = (s1, v1)"
    and "generate_probabilities uniform2 s1 m2 mb2 = (s2, v2)"
  shows "v2 = v1 \<and> s2 = s1 \<and> market_probabilities s2 (market_id m1) = Some v1"
  using assms by (auto simp: generate_probabilities_def Let_def split: option.splits)

theorem generate_probabilities_twice_witness:
  "generate_probabilities example_uniform (example_strategy ''take'') (example_market 0) example_book
     = ((example_strategy ''take'')\<lparr>market_probabilities := [''1.171755571'' \<mapsto> [Fin 0.25, Fin 0.75]]\<rparr>,
        [Fin 0.25, Fin 0.75])
   \<and> generate_probabilities zero_uniform
        ((example_strategy ''take'')\<lparr>market_probabilities := [''1.171755571'' \<mapsto> [Fin 0.25, Fin 0.75]]\<rparr>)
        (example_market 1) (example_book\<lparr>number_of_active_runners := 5\<rparr>)
     = ((example_strategy ''take'')\<lparr>market_probabilities := [''1.171755571'' \<mapsto> [Fin 0.25, Fin 0.75]]\<rparr>,
        [Fin 0.25, Fin 0.75])"
proof -
  have a: "generate_probabilities example_uniform (example_strategy ''take'') (example_market 0) example_book
     = ((example_strategy ''take'')\<lparr>market_probabilities := [''1.171755571'' \<mapsto> [Fin 0.25, Fin 0.75]]\<rparr>,
        [Fin 0.25, Fin 0.75])"
    by (simp add: generate_probabilities_def example_uniform_def example_strategy_def
        example_market_def example_book_def round64_eval)
  obtain s2 v2 where b: "generate_probabilities zero_uniform
        ((example_strategy ''take'')\<lparr>market_probabilities := [''1.171755571'' \<mapsto> [Fin 0.25, Fin 0.75]]\<rparr>)
        (example_market 1) (example_book\<lparr>number_of_active_runners := 5\<rparr>) = (s2, v2)"
    by (cases "generate_probabilities zero_uniform
        ((example_strategy ''take'')\<lparr>market_probabilities := [''1.171755571'' \<mapsto> [Fin 0.25, Fin 0.75]]\<rparr>)
        (example_market 1) (example_book\<lparr>number_of_active_runners := 5\<rparr>)")
  have c: "market_id (example_market 1) = market_id (example_market 0)"
    by (simp add: example_market_def)
  from generate_probabilities_twice [OF c a b] b a show ?thesis by simp
qed

subsection \<open>Validation of the probabilities\<close>

lemma verify_probabilities_invalid:
  "k < length (filter (\<lambda>r. status r = ''ACTIVE'') rs) \<Longrightarrow> idx + k < length probs \<Longrightarrow>
   isnan (probs ! (idx + k)) \<or> probs ! (idx + k) = Fin 0 \<Longrightarrow>
   verify_probabilities probs idx rs = Some NameError"
proof (induction rs arbitrary: idx k)
  case Nil
  then show ?case by simp
next
  case (Cons r rs)
  show ?case
  proof (cases "status r = ''ACTIVE''")
    case False
    with Cons show ?thesis by simp
  next
    case True
    show ?thesis
    proof (cases k)
      case 0
      with Cons.prems True show ?thesis by (auto simp: Let_def)
    next
      case (Suc j)
      with Cons.prems True have j: "j < length (filter (\<lambda>r. status r = ''ACTIVE'') rs)"
        "(idx + 1) + j < length probs"
        "isnan (probs ! ((idx + 1) + j)) \<or> probs ! ((idx + 1) + j) = Fin 0"
        by simp_all
      from Cons.IH[OF j] have "verify_probabilities probs (idx + 1) rs = Some NameError" .
      with True Cons.prems Suc show ?thesis by (auto simp: Let_def)
    qed
  qed
qed

lemma verify_probabilities_valid:
  "verify_probabilities probs idx rs = None \<Longrightarrow>
   k < length (filter (\<lambda>r. status r = ''ACTIVE'') rs) \<Longrightarrow>
   idx + k < length probs \<and> \<not> isnan (probs ! (idx + k)) \<and> probs ! (idx + k) \<noteq> Fin 0"
proof (induction rs arbitrary: idx k)
  case Nil
  then show ?case by simp
next
  case (Cons r rs)
  show ?case
  proof (cases "status r = ''ACTIVE''")
    case False
    with Cons show ?thesis by simp
  next
    case True
    from Cons.prems(1) True
    have a: "idx < length probs" "\<not> isnan (probs ! idx)" "probs ! idx \<noteq> Fin 0"
      and b: "verify_probabilities probs (idx + 1) rs = None"
      by (auto simp: Let_def split: if_splits)
    show ?thesis
    proof (cases k)
      case 0
      with a show ?thesis by simp
    next
      case (Suc j)
      with Cons.prems(2) True have "j < length (filter (\<lambda>r. status r = ''ACTIVE'') rs)"
        by simp
      from Cons.IH[OF b this] Suc show ?thesis by simp
    qed
  qed
qed

text \<open>
  C7. If the probability of some active runner of the market book (the \<open>k\<close>-th active
  runner reads the \<open>k\<close>-th entry of the vector) is NaN or zero, \<open>process_market_book\<close> ends
  before its second loop: it issues no command and computes no candidate price, so no
  \<open>1 / runner_probability\<close> is evaluated. It ends with \<open>return False\<close> when the length of the
  vector differs from the number of active runners, and otherwise in the validation loop,
  by the \<open>NameError\<close> that the log line of the invalid probability raises.
\<close>

theorem process_market_book_invalid_probability:
  assumes "generate_probabilities uniform s m mb = (s', probs)"
    and "k < length (filter (\<lambda>r. status r = ''ACTIVE'') (runners mb))"
    and "k < length probs"
    and "isnan (probs ! k) \<or> probs ! k = Fin 0"
  shows "process_market_book get_nearest_price round2 uniform s (Some m) (Some mb) =
     (s', [], if length probs \<noteq> number_of_active_runners mb then Inr (Some False)
              else Inl NameError)"
  using assms verify_probabilities_invalid[of k "runners mb" 0 probs]
  by (simp add: process_market_book_def)

theorem process_market_book_invalid_probability_witness:
  "generate_probabilities zero_uniform (example_strategy ''take'') (example_market 1) example_book
     = ((example_strategy ''take'')\<lparr>market_probabilities := [''1.171755571'' \<mapsto> [Fin 0, Fin 1]]\<rparr>,
        [Fin 0, Fin 1])
   \<and> process_market_book example_tick (\<lambda>x. x) zero_uniform (example_strategy ''take'')
       (Some (example_market 1)) (Some example_book)
     = ((example_strategy ''take'')\<lparr>market_probabilities := [''1.171755571'' \<mapsto> [Fin 0, Fin 1]]\<rparr>,
        [], Inl NameError)"
proof -
  have a: "generate_probabilities zero_uniform (example_strategy ''take'') (example_market 1) example_book
     = ((example_strategy ''take'')\<lparr>market_probabilities := [''1.171755571'' \<mapsto> [Fin 0, Fin 1]]\<rparr>,
        [Fin 0, Fin 1])"
    by (simp add: generate_probabilities_def zero_uniform_def example_strategy_def
        example_market_def example_book_def round64_eval)
  have b: "0 < length (filter (\<lambda>r. status r = ''ACTIVE'') (runners example_book))"
    by (simp add: example_book_def example_runners_def)
  have c: "(0::nat) < length [Fin 0, Fin 1]" by simp
  have d: "isnan ([Fin 0, Fin 1] ! 0) \<or> [Fin 0, Fin 1] ! 0 = Fin 0" by simp
  from process_market_book_invalid_probability [OF a b c d, of example_tick "\<lambda>x. x"] a
  show ?thesis by (simp add: example_book_def)
qed

subsection \<open>The configured bounds\<close>

lemma get_back_price_bounds:
  "get_back_price s p lay bk = Inr (Some q) \<Longrightarrow> min_back_price s \<le> q \<and> q \<le> max_back_price s"
  by (auto simp: get_back_price_def Let_def split: option.splits if_splits)

lemma get_lay_price_bounds:
  "get_lay_price s p lay bk = Inr (Some q) \<Longrightarrow> min_lay_price s \<le> q \<and> q \<le> max_lay_price s"
  by (auto simp: get_lay_price_def Let_def split: option.splits if_splits)

lemma replace_back_bounds:
  "replace_back s p lay bk ord = Inr c \<Longrightarrow> list_all (command_in_bounds s) c"
  by (auto simp: replace_back_def price_in_bounds_def dest: get_back_price_bounds
      split: if_splits sum.splits option.splits)

lemma replace_lay_bounds:
  "replace_lay s p lay bk ord = Inr c \<Longrightarrow> list_all (command_in_bounds s) c"
  by (auto simp: replace_lay_def price_in_bounds_def dest: get_lay_price_bounds
      split: if_splits sum.splits option.splits)

lemma update_orders_bounds:
  "list_all (command_in_bounds s) (fst (update_orders s p lay bk hb hl ords))"
proof (induction ords arbitrary: hb hl)
  case Nil
  then show ?case by simp
next
  case (Cons ord ords)
  show ?case
  proof (cases "replace_back s p lay bk ord")
    case (Inl e)
    then show ?thesis by simp
  next
    case (Inr c1)
    note c1 = this
    show ?thesis
    proof (cases "replace_lay s p lay bk ord")
      case (Inl e)
      with c1 replace_back_bounds[OF c1] show ?thesis by simp
    next
      case (Inr c2)
      with c1 replace_back_bounds[OF c1] replace_lay_bounds[OF Inr]
        Cons.IH[of "hb \<or> side ord = ''BACK''" "hl \<or> side ord = ''LAY''"]
      show ?thesis by (auto split: prod.splits)
    qed
  qed
qed

lemma offer_back_bounds:
  "offer_back s p lay bk t hb = Inr c \<Longrightarrow> list_all (command_in_bounds s) c"
  by (auto simp: offer_back_def price_in_bounds_def dest: get_back_price_bounds
      split: if_splits sum.splits option.splits)

lemma offer_lay_bounds:
  "offer_lay s p lay bk t hl = Inr c \<Longrightarrow> list_all (command_in_bounds s) c"
  by (auto simp: offer_lay_def price_in_bounds_def dest: get_lay_price_bounds
      split: if_splits sum.splits option.splits)

lemma trade_runner_bounds:
  "list_all (command_in_bounds s) (fst (trade_runner s m r p t))"
  using update_orders_bounds[of s p "best_lay_price r" "best_back_price r" False False
      "strategy_selection_orders m (selection_id r) (handicap r)"]
  by (auto simp: trade_runner_def Let_def dest: offer_back_bounds offer_lay_bounds
      split: prod.splits sum.splits)

lemma compare_odds_bounds:
  "staking_strategy s \<noteq> ''bsp'' \<Longrightarrow>
   list_all (command_in_bounds s) (fst (compare_odds gnp r2 s m mb probs idx rs))"
proof (induction rs arbitrary: idx)
  case Nil
  then show ?case by simp
next
  case (Cons r rs)
  show ?case
    using Cons.prems Cons.IH[OF Cons.prems, of idx] Cons.IH[OF Cons.prems, of "idx + 1"]
      trade_runner_bounds[of s m r "probs ! idx" "\<lparr>trade_market_id = book_market_id mb,
         trade_selection_id = selection_id r, trade_handicap = handicap r\<rparr>"]
    by (auto simp: Let_def split: prod.splits option.splits)
qed

lemma generate_probabilities_config:
  assumes "generate_probabilities u s m mb = (s', probs)"
  shows "staking_strategy s' = staking_strategy s \<and> command_in_bounds s' = command_in_bounds s"
proof -
  from assms have "s' = s \<or> (\<exists>f. s' = s\<lparr>market_probabilities := f\<rparr>)"
    by (auto simp: generate_probabilities_def Let_def split: option.splits)
  moreover have "command_in_bounds (s\<lparr>market_probabilities := f\<rparr>) c = command_in_bounds s c"
    for f c
    by (cases "(s, c)" rule: command_in_bounds.cases) (auto simp: price_in_bounds_def)
  ultimately show ?thesis by auto
qed

text \<open>
  C10. In every staking mode other than \<open>bsp\<close>, every command that \<open>process_market_book\<close>
  issues is a limit order, or the replacement of an order, at a price within the bounds
  of its side: between the minimum and the maximum back price for a back order, between
  the minimum and the maximum lay price for a lay order.
\<close>

theorem process_market_book_prices_in_bounds:
  assumes "staking_strategy s \<noteq> ''bsp''"
  shows "list_all (command_in_bounds s)
           (fst (snd (process_market_book gnp r2 u s market mbook)))"
proof (cases "\<exists>m mb. market = Some m \<and> mbook = Some mb")
  case False
  then show ?thesis by (auto simp: process_market_book_def split: option.splits)
next
  case True
  then obtain m mb where mm: "market = Some m" "mbook = Some mb" by blast
  obtain s' probs where g: "generate_probabilities u s m mb = (s', probs)"
    by (cases "generate_probabilities u s m mb")
  from generate_probabilities_config[OF g] assms
  have "staking_strategy s' \<noteq> ''bsp''" and eq: "command_in_bounds s' = command_in_bounds s"
    by auto
  from compare_odds_bounds[OF this(1), of gnp r2 m mb probs 0 "runners mb"] eq
  show ?thesis by (simp add: process_market_book_def mm g split: option.splits)
qed

theorem process_market_book_prices_in_bounds_witness:
  "fst (snd (process_market_book example_tick (\<lambda>x. x) example_uniform (example_strategy ''take'')
              (Some (example_market 1)) (Some example_book)))
     = [ReplaceOrder resting_back 3.8,
        PlaceOrder \<lparr>trade_market_id = ''1.171755571'', trade_selection_id = 101, trade_handicap = 0\<rparr>
          ''LAY'' (LimitOrder 3.9 10),
        PlaceOrder \<lparr>trade_market_id = ''1.171755571'', trade_selection_id = 102, trade_handicap = 0\<rparr>
          ''BACK'' (LimitOrder 1.3 10),
        PlaceOrder \<lparr>trade_market_id = ''1.171755571'', trade_selection_id = 102, trade_handicap = 0\<rparr>
          ''LAY'' (LimitOrder 1.32 10)]
   \<and> list_all (command_in_bounds (example_strategy ''take''))
       (fst (snd (process_market_book example_tick (\<lambda>x. x) example_uniform (example_strategy ''take'')
              (Some (example_market 1)) (Some example_book))))"
proof -
  have a: "staking_strategy (example_strategy ''take'') \<noteq> ''bsp''"
    by (simp add: example_strategy_def)
  have b: "fst (snd (process_market_book example_tick (\<lambda>x. x) example_uniform (example_strategy ''take'')
              (Some (example_market 1)) (Some example_book)))
     = [ReplaceOrder resting_back 3.8,
        PlaceOrder \<lparr>trade_market_id = ''1.171755571'', trade_selection_id = 101, trade_handicap = 0\<rparr>
          ''LAY'' (LimitOrder 3.9 10),
        PlaceOrder \<lparr>trade_market_id = ''1.171755571'', trade_selection_id = 102, trade_handicap = 0\<rparr>
          ''BACK'' (LimitOrder 1.3 10),
        PlaceOrder \<lparr>trade_market_id = ''1.171755571'', trade_selection_id = 102, trade_handicap = 0\<rparr>
          ''LAY'' (LimitOrder 1.32 10)]"
    by (simp add: process_market_book_def generate_probabilities_def trade_runner_def
        replace_back_def replace_lay_def offer_back_def offer_lay_def get_back_price_def
        get_lay_price_def example_strategy_def example_market_def example_book_def
        example_runners_def example_uniform_def resting_back_def round64_eval)
  from process_market_book_prices_in_bounds [OF a, of example_tick "\<lambda>x. x" example_uniform
      "Some (example_market 1)" "Some example_book"] b
  show ?thesis by simp
qed

subsection \<open>The starting-price mode\<close>

lemma compare_odds_bsp:
  assumes "staking_strategy s = ''bsp''"
    and "\<forall>x \<in> set pre. status x \<noteq> ''ACTIVE''" and "status r = ''ACTIVE''"
  shows "compare_odds gnp r2 s m mb probs idx (pre @ r # rest) =
     (if idx \<ge> length probs then ([], Inl IndexError)
      else place_bsp_bets gnp r2 s m r (best_back_price r) (best_lay_price r) (probs ! idx)
             \<lparr>trade_market_id = book_market_id mb, trade_selection_id = selection_id r,
              trade_handicap = handicap r\<rparr>)"
  using assms by (induction pre) (auto simp: Let_def)

lemma verify_probabilities_first_active:
  assumes "\<forall>x \<in> set pre. status x \<noteq> ''ACTIVE''" and "status r = ''ACTIVE''"
    and "verify_probabilities probs idx (pre @ r # rest) = None"
  shows "idx < length probs"
  using assms by (induction pre) (auto simp: Let_def split: if_splits)

lemma place_bsp_bets_commands:
  "c \<in> set (fst (place_bsp_bets gnp r2 s m r bk lay p t)) \<Longrightarrow>
   \<exists>sd liability q. c = PlaceOrder t sd (LimitOnCloseOrder liability q)"
  by (auto simp: place_bsp_bets_def Let_def split: if_splits option.splits)

text \<open>
  C9. In the staking mode \<open>bsp\<close>, let \<open>r\<close> be the first active runner of the market book.
  When the probabilities pass the validation, what \<open>process_market_book\<close> issues and
  returns is what \<open>_place_bsp_bets\<close> issues and returns for \<open>r\<close>, with the first entry of
  the vector: the call returns from inside the second loop, and the runners after \<open>r\<close>
  are not reached there. In every case, each command of the update is a starting-price
  order on \<open>r\<close>.
\<close>

theorem process_market_book_bsp_first_active:
  assumes "staking_strategy s = ''bsp''"
    and "runners mb = pre @ r # rest"
    and "\<forall>x \<in> set pre. status x \<noteq> ''ACTIVE''" and "status r = ''ACTIVE''"
    and "generate_probabilities u s m mb = (s', probs)"
  shows "snd (process_market_book gnp r2 u s (Some m) (Some mb)) =
     (if length probs \<noteq> number_of_active_runners mb then ([], Inr (Some False))
      else case verify_probabilities probs 0 (runners mb) of
             Some e \<Rightarrow> ([], Inl e)
           | None \<Rightarrow>
               place_bsp_bets gnp r2 s' m r (best_back_price r) (best_lay_price r) (probs ! 0)
                 \<lparr>trade_market_id = book_market_id mb, trade_selection_id = selection_id r,
                  trade_handicap = handicap r\<rparr>)
   \<and> (\<forall>c \<in> set (fst (snd (process_market_book gnp r2 u s (Some m) (Some mb)))).
        \<exists>sd liability q. c = PlaceOrder \<lparr>trade_market_id = book_market_id mb,
            trade_selection_id = selection_id r, trade_handicap = handicap r\<rparr> sd
            (LimitOnCloseOrder liability q))"
proof -
  from generate_probabilities_config[OF assms(5)] assms(1)
  have b: "staking_strategy s' = ''bsp''" by simp
  have eq: "snd (process_market_book gnp r2 u s (Some m) (Some mb)) =
     (if length probs \<noteq> number_of_active_runners mb then ([], Inr (Some False))
      else case verify_probabilities probs 0 (runners mb) of
             Some e \<Rightarrow> ([], Inl e)
           | None \<Rightarrow>
               place_bsp_bets gnp r2 s' m r (best_back_price r) (best_lay_price r) (probs ! 0)
                 \<lparr>trade_market_id = book_market_id mb, trade_selection_id = selection_id r,
                  trade_handicap = handicap r\<rparr>)"
    using compare_odds_bsp[OF b assms(3,4), of gnp r2 m mb probs 0 rest]
      verify_probabilities_first_active[OF assms(3,4), of probs 0 rest]
    by (auto simp: process_market_book_def assms(2,5) split: option.splits)
  have "\<exists>sd liability q. c = PlaceOrder \<lparr>trade_market_id = book_market_id mb,
            trade_selection_id = selection_id r, trade_handicap = handicap r\<rparr> sd
            (LimitOnCloseOrder liability q)"
    if "c \<in> set (fst (snd (process_market_book gnp r2 u s (Some m) (Some mb))))" for c
    using that place_bsp_bets_commands[of c gnp r2 s' m r "best_back_price r" "best_lay_price r"
        "probs ! 0" "\<lparr>trade_market_id = book_market_id mb,
            trade_selection_id = selection_id r, trade_handicap = handicap r\<rparr>"]
    unfolding eq by (auto split: if_splits option.splits)
  with eq show ?thesis by blast
qed

theorem process_market_book_bsp_first_active_witness:
  "snd (process_market_book example_tick (\<lambda>x. x) example_uniform (example_strategy ''bsp'')
          (Some (example_market 1)) (Some example_book))
     = ([PlaceOrder \<lparr>trade_market_id = ''1.171755571'', trade_selection_id = 101, trade_handicap = 0\<rparr>
           ''BACK'' (LimitOnCloseOrder 10 (2476979795053773 / 562949953421312)),
         PlaceOrder \<lparr>trade_market_id = ''1.171755571'', trade_selection_id = 101, trade_handicap = 0\<rparr>
           ''LAY'' (LimitOnCloseOrder 30 (8188362958855447 / 2251799813685248))], Inr None)"
proof -
  have a: "staking_strategy (example_strategy ''bsp'') = ''bsp''"
    by (simp add: example_strategy_def)
  have b: "runners example_book =
      [\<lparr>selection_id = 100, handicap = 0, status = ''REMOVED'',
        best_back_price = None, best_lay_price = None\<rparr>]
      @ \<lparr>selection_id = 101, handicap = 0, status = ''ACTIVE'',
         best_back_price = Some 3.8, best_lay_price = Some 3.9\<rparr>
      # [\<lparr>selection_id = 102, handicap = 0, status = ''ACTIVE'',
          best_back_price = Some 1.3, best_lay_price = Some 1.32\<rparr>]"
    by (simp add: example_book_def example_runners_def)
  have c: "\<forall>x \<in> set [\<lparr>selection_id = 100, handicap = 0, status = ''REMOVED'',
        best_back_price = None, best_lay_price = None\<rparr>]. status x \<noteq> ''ACTIVE''"
    by simp
  have d: "status \<lparr>selection_id = 101, handicap = 0, status = ''ACTIVE'',
         best_back_price = Some 3.8, best_lay_price = Some 3.9\<rparr> = ''ACTIVE''"
    by simp
  have e: "generate_probabilities example_uniform (example_strategy ''bsp'') (example_market 1)
             example_book
     = ((example_strategy ''bsp'')\<lparr>market_probabilities := [''1.171755571'' \<mapsto> [Fin 0.25, Fin 0.75]]\<rparr>,
        [Fin 0.25, Fin 0.75])"
    by (simp add: generate_probabilities_def example_uniform_def example_strategy_def
        example_market_def example_book_def round64_eval)
  from process_market_book_bsp_first_active [OF a b c d e, of example_tick "\<lambda>x. x"]
  show ?thesis
    by (simp add: place_bsp_bets_def example_strategy_def example_market_def example_book_def
        example_runners_def round64_eval)
qed

end
